theory Spec2Isabelle
  imports Main "HOL-Library.Multiset" "HOL-Library.Char_ord"
begin

section \<open>Car Management API: data model\<close>

text \<open>
  The program is \<^verbatim>\<open>src/expressDatabase.js\<close>: a connection middleware and four route
  handlers over one table \<^verbatim>\<open>car\<close>. The notes in \<^verbatim>\<open>src/unnamed/part_000\<close> print a second
  version of the middleware and of the four handlers; its definitions carry the suffix
  \<open>_notes\<close>.

  What lies outside the two files is made explicit:
  \<^item> every call that can reject (\<^verbatim>\<open>getConnection\<close>, \<^verbatim>\<open>query\<close>) takes a
    \<open>string option\<close>: \<open>Some msg\<close> means the call rejects with an error whose
    \<^verbatim>\<open>message\<close> is \<open>msg\<close>, and the table is then left as it was;
  \<^item> the engine's test \<^verbatim>\<open>WHERE id = :param\<close> of a row id against a bound value is a
    parameter \<open>m\<close> of the model (\<open>m v i\<close>: the bound value \<open>v\<close> selects the row with
    id \<open>i\<close>), so no coercion rule of the engine is assumed;
  \<^item> the table's schema is in no file of the repository; the one property of it the
    statements depend on, whether the column \<^verbatim>\<open>date_created\<close> defaults to the current
    timestamp, is the field \<open>stamped\<close> of the database;
  \<^item> \<^verbatim>\<open>req.body\<close> is the parsed JSON object, a map from field names to JSON scalars;
    a field it lacks reads as \<^verbatim>\<open>undefined\<close>, which is \<open>None\<close>. The client library
    writes an undefined value bound to a statement as \<^verbatim>\<open>NULL\<close>, and \<^verbatim>\<open>res.json\<close>
    leaves a key with an undefined value out of the body. Column coercion by the engine
    is not modelled, and arrays and objects bound as values are outside the model;
  \<^item> \<^verbatim>\<open>next()\<close> returns when the route handler reaches its first \<^verbatim>\<open>await\<close> or its
    end, and hands no failure of the handler back to its caller; what the handler does
    after its \<^verbatim>\<open>await\<close> runs once the awaited query has settled, which is after
    the caller of \<^verbatim>\<open>next()\<close> has run on;
  \<^item> in front of the middleware \<^verbatim>\<open>bodyParser.json()\<close> answers 400 to a body it cannot
    parse, and behind the routes the framework answers 404 to a request no route
    matches; both answers are pages written by the framework;
  \<^item> \<^verbatim>\<open>release()\<close> does not fail, and the console keeps the label of each line
    written to it.
\<close>

datatype scalar = Null | Bool bool | Num int | Str string

record car =
  car_id :: nat
  car_make :: scalar
  car_model :: scalar
  car_year :: scalar
  deleted_flag :: nat
  date_created :: "nat option"

text \<open>
  \<open>date_created\<close> is \<open>Some t\<close> for a timestamp taken at clock reading \<open>t\<close> and
  \<open>None\<close> for a row without one.
\<close>

datatype json = Val scalar | Row car | Arr "json list" | Obj "(string \<times> json) list"

datatype payload = Text string | Json json | Page

record response =
  status :: nat
  body :: payload

record database =
  cars :: "car list"
  next_id :: nat
  clock :: nat
  stamped :: bool

text \<open>
  What happens in a request, in the order it happens: a connection handed out, a
  connection given back, a query settled with its result, an answer sent with its status.
\<close>

datatype event = Acquired | Released | Settled | Answered nat

text \<open>
  The state one request runs in: the table, the pool's counters of connections handed out
  and given back, the response sent so far, the lines written to the console, and the
  events so far.
\<close>

record ctx =
  db :: database
  acquired :: nat
  released :: nat
  res :: "response option"
  console :: "string list"
  trace :: "event list"

type_synonym req_body = "string \<rightharpoonup> scalar"

type_synonym id_match = "scalar \<Rightarrow> nat \<Rightarrow> bool"

record faults =
  on_acquire :: "string option"
  on_sql_mode :: "string option"
  on_time_zone :: "string option"
  on_query :: "string option"

text \<open>
  The requests: the five routes of the source, a request whose body is not JSON that
  parses, and a request that no route matches.
\<close>

datatype request =
  GetRoot | GetCar | PostCar req_body | PutCar req_body | DeleteCar string
  | Malformed | Unmatched

section \<open>The collaborators: pool, connection, response, console\<close>

definition getConnection :: "string option \<Rightarrow> ctx \<Rightarrow> string + ctx" where
  "getConnection fault c =
     (case fault of
        Some msg \<Rightarrow> Inl msg
      | None \<Rightarrow> Inr (c\<lparr>acquired := Suc (acquired c), trace := trace c @ [Acquired]\<rparr>))"

definition release :: "ctx \<Rightarrow> ctx" where
  "release c = c\<lparr>released := Suc (released c), trace := trace c @ [Released]\<rparr>"

definition query :: "string option \<Rightarrow> (database \<Rightarrow> 'r \<times> database) \<Rightarrow> ctx \<Rightarrow> string + ('r \<times> ctx)" where
  "query fault stmt c =
     (case fault of
        Some msg \<Rightarrow> Inl msg
      | None \<Rightarrow>
          (case stmt (db c) of (r, d) \<Rightarrow> Inr (r, c\<lparr>db := d, trace := trace c @ [Settled]\<rparr>)))"

text \<open>
  \<^verbatim>\<open>res.json(b)\<close> answers with status 200, \<^verbatim>\<open>res.status(n).json(b)\<close> with status
  \<open>n\<close>. Only the first answer of a request reaches the client.
\<close>

definition reply :: "nat \<Rightarrow> payload \<Rightarrow> ctx \<Rightarrow> ctx" where
  "reply n b c =
     (case res c of
        None \<Rightarrow> c\<lparr>res := Some \<lparr>status = n, body = b\<rparr>, trace := trace c @ [Answered n]\<rparr>
      | Some _ \<Rightarrow> c)"

definition log_line :: "string \<Rightarrow> ctx \<Rightarrow> ctx" where
  "log_line l c = c\<lparr>console := console c @ [l]\<rparr>"

definition error_body :: "string \<Rightarrow> string \<Rightarrow> payload" where
  "error_body e msg = Json (Obj [(''error'', Val (Str e)), (''details'', Val (Str msg))])"

text \<open>The keys of an object literal that reach the body: those with a defined value.\<close>

fun present :: "(string \<times> scalar option) list \<Rightarrow> (string \<times> json) list" where
  "present [] = []"
| "present ((k, None) # kvs) = present kvs"
| "present ((k, Some v) # kvs) = (k, Val v) # present kvs"

text \<open>The value a statement receives for a named placeholder.\<close>

definition bind :: "scalar option \<Rightarrow> scalar" where
  "bind v = (case v of None \<Rightarrow> Null | Some x \<Rightarrow> x)"

section \<open>The statements of the source\<close>

text \<open>\<^verbatim>\<open>SET SESSION sql_mode = "TRADITIONAL"\<close> and \<^verbatim>\<open>SET time_zone = '-8:00'\<close>\<close>

definition set_session :: "database \<Rightarrow> unit \<times> database" where
  "set_session d = ((), d)"

text \<open>\<^verbatim>\<open>SELECT * FROM car WHERE deleted_flag = 0;\<close>\<close>

definition select_active :: "database \<Rightarrow> car list \<times> database" where
  "select_active d = (filter (\<lambda>r. deleted_flag r = 0) (cars d), d)"

text \<open>
  \<^verbatim>\<open>INSERT INTO car (make, model, year, deleted_flag) VALUES (:make, :model, :year, 0);\<close>
  The statement does not name \<^verbatim>\<open>date_created\<close>, so the column takes its default.
\<close>

definition insert_car ::
  "scalar option \<Rightarrow> scalar option \<Rightarrow> scalar option \<Rightarrow> database \<Rightarrow> nat \<times> database" where
  "insert_car mk md yr d =
     (next_id d,
      d\<lparr>cars := cars d @ [\<lparr>car_id = next_id d, car_make = bind mk, car_model = bind md,
                             car_year = bind yr, deleted_flag = 0,
                             date_created = (if stamped d then Some (clock d) else None)\<rparr>],
        next_id := Suc (next_id d)\<rparr>)"

text \<open>
  \<^verbatim>\<open>INSERT INTO car (make, model, year, date_created, deleted_flag)
   VALUES (:make, :model, :year, NOW(), 0);\<close>
\<close>

definition insert_car_now ::
  "scalar option \<Rightarrow> scalar option \<Rightarrow> scalar option \<Rightarrow> database \<Rightarrow> nat \<times> database" where
  "insert_car_now mk md yr d =
     (next_id d,
      d\<lparr>cars := cars d @ [\<lparr>car_id = next_id d, car_make = bind mk, car_model = bind md,
                             car_year = bind yr, deleted_flag = 0,
                             date_created = Some (clock d)\<rparr>],
        next_id := Suc (next_id d)\<rparr>)"

text \<open>\<^verbatim>\<open>UPDATE car SET make = :make, model = :model, year = :year WHERE id = :id;\<close>\<close>

definition update_car ::
  "id_match \<Rightarrow> scalar option \<Rightarrow> scalar option \<Rightarrow> scalar option \<Rightarrow> scalar option \<Rightarrow>
   database \<Rightarrow> unit \<times> database" where
  "update_car m i mk md yr d =
     ((), d\<lparr>cars := map (\<lambda>r. if m (bind i) (car_id r)
                                then r\<lparr>car_make := bind mk, car_model := bind md,
                                       car_year := bind yr\<rparr>
                                else r) (cars d)\<rparr>)"

text \<open>\<^verbatim>\<open>UPDATE car SET deleted_flag = 1 WHERE id = :carId\<close>\<close>

definition soft_delete :: "id_match \<Rightarrow> scalar \<Rightarrow> database \<Rightarrow> unit \<times> database" where
  "soft_delete m i d =
     ((), d\<lparr>cars := map (\<lambda>r. if m i (car_id r) then r\<lparr>deleted_flag := 1\<rparr> else r) (cars d)\<rparr>)"

section \<open>src/expressDatabase.js\<close>

subsection \<open>Connection middleware\<close>

text \<open>
  The \<^verbatim>\<open>catch\<close> block: \<open>held\<close> is the test \<^verbatim>\<open>if (req.db)\<close>, true once
  \<^verbatim>\<open>getConnection\<close> has returned. Setting \<^verbatim>\<open>namedPlaceholders\<close> only decides how
  the later statements name their values and has no step of its own.
\<close>

definition middleware_catch :: "bool \<Rightarrow> string \<Rightarrow> ctx \<Rightarrow> ctx" where
  "middleware_catch held msg c =
     reply 500 (error_body ''Internal Server Error: Unable to connect to cars database'' msg)
       ((if held then release else id) (log_line ''Database connection error:'' c))"

text \<open>
  \<open>next c3 = (c4, pending)\<close>: \<open>c4\<close> is the state when \<^verbatim>\<open>next()\<close> returns and
  \<open>pending\<close> is what the route handler still does after its \<^verbatim>\<open>await\<close>. The middleware
  resumes from \<^verbatim>\<open>await next()\<close> in \<open>c4\<close> and releases; the pending part runs after
  that. No failure comes back from \<^verbatim>\<open>next()\<close>, so the \<^verbatim>\<open>catch\<close> block is entered
  from \<^verbatim>\<open>getConnection\<close> and the two session statements only. The value is the state
  once all that the call started has run.
\<close>

definition middleware :: "faults \<Rightarrow> (ctx \<Rightarrow> ctx \<times> (ctx \<Rightarrow> ctx)) \<Rightarrow> ctx \<Rightarrow> ctx" where
  "middleware f next c =
     (case getConnection (on_acquire f) c of
        Inl msg \<Rightarrow> middleware_catch False msg c
      | Inr c1 \<Rightarrow>
         (case query (on_sql_mode f) set_session c1 of
            Inl msg \<Rightarrow> middleware_catch True msg c1
          | Inr (_, c2) \<Rightarrow>
             (case query (on_time_zone f) set_session c2 of
                Inl msg \<Rightarrow> middleware_catch True msg c2
              | Inr (_, c3) \<Rightarrow>
                 (case next c3 of (c4, pending) \<Rightarrow> pending (release c4)))))"

subsection \<open>Route handlers\<close>

text \<open>
  Each handler is given from its call to its end. The handlers of \<^verbatim>\<open>/car\<close> await
  their query first thing, but for the console line of DELETE; \<open>delete_car_settle\<close> is
  that handler from its \<^verbatim>\<open>await\<close> on.
\<close>

definition get_root :: "ctx \<Rightarrow> ctx" where
  "get_root c = reply 200 (Text ''Welcome to the Car Management API!'') c"

definition get_car :: "string option \<Rightarrow> ctx \<Rightarrow> ctx" where
  "get_car fault c =
     (case query fault select_active c of
        Inr (rows, c1) \<Rightarrow> reply 200 (Json (Obj [(''cars'', Arr (map Row rows))])) c1
      | Inl msg \<Rightarrow>
          reply 500 (error_body ''Internal Server Error: Failed to retrieve car data'' msg)
            (log_line ''Error in GET request to /car:'' c))"

definition post_car :: "string option \<Rightarrow> req_body \<Rightarrow> ctx \<Rightarrow> ctx" where
  "post_car fault b c =
     (let mk = b ''make''; md = b ''model''; yr = b ''year'' in
      case query fault (insert_car mk md yr) c of
        Inr (insertId, c1) \<Rightarrow>
          reply 200 (Json (Obj (present [(''id'', Some (Num (int insertId))), (''make'', mk),
                                         (''model'', md), (''year'', yr),
                                         (''success'', Some (Bool True))]))) c1
      | Inl msg \<Rightarrow>
          reply 500 (error_body ''Internal Server Error: Failed to create car'' msg)
            (log_line ''Error in POST request to /car:'' c))"

definition put_car :: "id_match \<Rightarrow> string option \<Rightarrow> req_body \<Rightarrow> ctx \<Rightarrow> ctx" where
  "put_car m fault b c =
     (let i = b ''id''; mk = b ''make''; md = b ''model''; yr = b ''year'' in
      case query fault (update_car m i mk md yr) c of
        Inr (_, c1) \<Rightarrow>
          reply 200 (Json (Obj (present [(''id'', i), (''make'', mk), (''model'', md),
                                         (''year'', yr), (''success'', Some (Bool True))])))
            (log_line ''Car updated successfully:'' c1)
      | Inl msg \<Rightarrow>
          reply 500 (error_body ''Internal Server Error: Failed to update car'' msg)
            (log_line ''Error in PUT request to /car:'' c))"

definition delete_car_settle :: "id_match \<Rightarrow> string option \<Rightarrow> string \<Rightarrow> ctx \<Rightarrow> ctx" where
  "delete_car_settle m fault carId c0 =
     (case query fault (soft_delete m (Str carId)) c0 of
        Inr (_, c1) \<Rightarrow> reply 200 (Json (Obj [(''success'', Val (Bool True))])) c1
      | Inl msg \<Rightarrow>
          reply 500 (error_body ''Internal Server Error: Failed to delete car'' msg)
            (log_line ''Error in DELETE request to /car/:id:'' c0))"

definition delete_car :: "id_match \<Rightarrow> string option \<Rightarrow> string \<Rightarrow> ctx \<Rightarrow> ctx" where
  "delete_car m fault carId c =
     delete_car_settle m fault carId
       (log_line (''Received DELETE request for car with ID: '' @ carId) c)"

subsection \<open>One request through the application\<close>

text \<open>
  What \<^verbatim>\<open>next()\<close> does for a request: the matching handler runs to its first
  \<^verbatim>\<open>await\<close> (the root handler to its end) and the rest of it is left pending. For a
  request no route matches, the framework's 404 is left pending. A request whose body
  does not parse never comes this far.
\<close>

definition dispatch :: "id_match \<Rightarrow> string option \<Rightarrow> request \<Rightarrow> ctx \<Rightarrow> ctx \<times> (ctx \<Rightarrow> ctx)" where
  "dispatch m fault rq c =
     (case rq of
        GetRoot \<Rightarrow> (get_root c, id)
      | GetCar \<Rightarrow> (c, get_car fault)
      | PostCar b \<Rightarrow> (c, post_car fault b)
      | PutCar b \<Rightarrow> (c, put_car m fault b)
      | DeleteCar i \<Rightarrow>
          (log_line (''Received DELETE request for car with ID: '' @ i) c,
           delete_car_settle m fault i)
      | Malformed \<Rightarrow> (c, id)
      | Unmatched \<Rightarrow> (c, reply 404 Page))"

text \<open>
  A request starts with no response sent. \<^verbatim>\<open>app.use(bodyParser.json())\<close> stands in
  front of the connection middleware: a body it cannot parse is answered 400 and the
  middleware is not entered.
\<close>

definition serve :: "id_match \<Rightarrow> faults \<Rightarrow> request \<Rightarrow> ctx \<Rightarrow> ctx" where
  "serve m f rq c =
     (case rq of
        Malformed \<Rightarrow> reply 400 Page (c\<lparr>res := None\<rparr>)
      | _ \<Rightarrow> middleware f (dispatch m (on_query f) rq) (c\<lparr>res := None\<rparr>))"

definition no_faults :: faults where
  "no_faults = \<lparr>on_acquire = None, on_sql_mode = None, on_time_zone = None, on_query = None\<rparr>"

section \<open>src/unnamed/part_000: the version printed in the notes\<close>

definition middleware_catch_notes :: "bool \<Rightarrow> string \<Rightarrow> ctx \<Rightarrow> ctx" where
  "middleware_catch_notes held msg c =
     reply 500 (error_body ''Internal Server Error: Unable to connect to car database'' msg)
       ((if held then release else id)
          (log_line ''Middleware connecting to database (pool:'' c))"

definition middleware_notes :: "faults \<Rightarrow> (ctx \<Rightarrow> ctx \<times> (ctx \<Rightarrow> ctx)) \<Rightarrow> ctx \<Rightarrow> ctx" where
  "middleware_notes f next c =
     (case getConnection (on_acquire f) c of
        Inl msg \<Rightarrow> middleware_catch_notes False msg c
      | Inr c1 \<Rightarrow>
         (case query (on_sql_mode f) set_session c1 of
            Inl msg \<Rightarrow> middleware_catch_notes True msg c1
          | Inr (_, c2) \<Rightarrow>
             (case query (on_time_zone f) set_session c2 of
                Inl msg \<Rightarrow> middleware_catch_notes True msg c2
              | Inr (_, c3) \<Rightarrow>
                 (case next c3 of (c4, pending) \<Rightarrow> pending (release c4)))))"

definition get_car_notes :: "string option \<Rightarrow> ctx \<Rightarrow> ctx" where
  "get_car_notes fault c =
     (case query fault select_active c of
        Inr (rows, c1) \<Rightarrow> reply 200 (Json (Obj [(''car'', Arr (map Row rows))])) c1
      | Inl msg \<Rightarrow>
          reply 500 (error_body ''Internal Server Error: Failed to retrieve car data'' msg)
            (log_line ''Error in GET request to /car:'' c))"

definition post_car_notes :: "string option \<Rightarrow> req_body \<Rightarrow> ctx \<Rightarrow> ctx" where
  "post_car_notes fault b c =
     (let mk = b ''make''; md = b ''model''; yr = b ''year'' in
      case query fault (insert_car_now mk md yr) c of
        Inr (insertId, c1) \<Rightarrow>
          reply 200 (Json (Obj (present [(''id'', Some (Num (int insertId))), (''make'', mk),
                                         (''model'', md), (''year'', yr),
                                         (''message'', Some (Str ''Car successfully created'')),
                                         (''success'', Some (Bool True))]))) c1
      | Inl msg \<Rightarrow>
          reply 500 (error_body ''Internal Server Error: Failed to create car'' msg)
            (log_line ''Error in POST request to /car:'' c))"

definition put_car_notes :: "id_match \<Rightarrow> string option \<Rightarrow> req_body \<Rightarrow> ctx \<Rightarrow> ctx" where
  "put_car_notes m fault b c =
     (let i = b ''id''; mk = b ''make''; md = b ''model''; yr = b ''year'' in
      case query fault (update_car m i mk md yr) c of
        Inr (_, c1) \<Rightarrow>
          reply 200 (Json (Obj (present [(''id'', i), (''make'', mk), (''model'', md),
                                         (''year'', yr), (''success'', Some (Bool True))]))) c1
      | Inl msg \<Rightarrow>
          reply 500 (error_body ''Internal Server Error: Failed to update car'' msg)
            (log_line ''Error in PUT request to /car:'' c))"

definition delete_car_notes :: "id_match \<Rightarrow> string option \<Rightarrow> string \<Rightarrow> ctx \<Rightarrow> ctx" where
  "delete_car_notes m fault carId c =
     (case query fault (soft_delete m (Str carId)) c of
        Inr (_, c1) \<Rightarrow> reply 200 (Json (Obj [(''success'', Val (Bool True))])) c1
      | Inl msg \<Rightarrow>
          reply 500 (error_body ''Internal Server Error: Failed to delete car'' msg)
            (log_line ''Error in DELETE request to /car/:id:'' c))"

section \<open>Notions used by the properties\<close>

text \<open>A run of successful creates, one request each.\<close>

fun creates :: "id_match \<Rightarrow> req_body list \<Rightarrow> ctx \<Rightarrow> ctx" where
  "creates m [] c = c"
| "creates m (b # bs) c = creates m bs (serve m no_faults (PostCar b) c)"

text \<open>
  The primary key with its counter: ids are pairwise different and below the next id the
  engine hands out.
\<close>

definition key_ok :: "database \<Rightarrow> bool" where
  "key_ok d = (distinct (map car_id (cars d)) \<and> list_all (\<lambda>r. car_id r < next_id d) (cars d))"

definition ids :: "ctx \<Rightarrow> nat set" where
  "ids c = car_id ` set (cars (db c))"

text \<open>Sample data for the instances below.\<close>

definition ford :: req_body where
  "ford = [''make'' \<mapsto> Str ''Ford'', ''model'' \<mapsto> Str ''Taurus'', ''year'' \<mapsto> Num 2024]"

definition honda :: req_body where
  "honda = [''make'' \<mapsto> Str ''Honda'', ''model'' \<mapsto> Str ''Civic'', ''year'' \<mapsto> Num 2020]"

text \<open>
  An instance of the parameter \<open>m\<close>: a number selects the row with that id, a string of
  decimal digits the row whose id it spells, \<^verbatim>\<open>true\<close> the id 1 and \<^verbatim>\<open>false\<close> the
  id 0, \<^verbatim>\<open>NULL\<close> no row.
\<close>

fun decimal :: "nat \<Rightarrow> string \<Rightarrow> nat option" where
  "decimal n [] = Some n"
| "decimal n (ch # s) =
     (if CHR ''0'' \<le> ch \<and> ch \<le> CHR ''9''
      then decimal (10 * n + (of_char ch - 48)) s else None)"

definition by_value :: id_match where
  "by_value v i =
     (case v of
        Num n \<Rightarrow> n = int i
      | Str s \<Rightarrow> s \<noteq> [] \<and> decimal 0 s = Some i
      | Bool t \<Rightarrow> i = (if t then 1 else 0)
      | Null \<Rightarrow> False)"

definition start :: ctx where
  "start = \<lparr>db = \<lparr>cars = [], next_id = 1, clock = 0, stamped = True\<rparr>, acquired = 0,
            released = 0, res = None, console = [], trace = []\<rparr>"

text \<open>A table of two rows, the first of them soft-deleted.\<close>

definition garage :: ctx where
  "garage =
     \<lparr>db = \<lparr>cars = [\<lparr>car_id = 1, car_make = Str ''Ford'', car_model = Str ''Taurus'',
                      car_year = Num 2024, deleted_flag = 1, date_created = Some 3\<rparr>,
                     \<lparr>car_id = 2, car_make = Str ''Kia'', car_model = Str ''Rio'',
                      car_year = Num 2019, deleted_flag = 0, date_created = Some 8\<rparr>],
            next_id = 3, clock = 10, stamped = True\<rparr>,
      acquired = 4, released = 4, res = None, console = [], trace = []\<rparr>"

section \<open>Basic facts\<close>

lemmas base_defs = getConnection_def release_def query_def reply_def log_line_def
  set_session_def select_active_def insert_car_def insert_car_now_def update_car_def
  soft_delete_def error_body_def

lemma serve_ok:
  "on_acquire f = None \<Longrightarrow> on_sql_mode f = None \<Longrightarrow> on_time_zone f = None \<Longrightarrow>
   rq \<noteq> Malformed \<Longrightarrow>
   serve m f rq c =
     snd (dispatch m (on_query f) rq
            (c\<lparr>res := None, acquired := Suc (acquired c),
               trace := trace c @ [Acquired, Settled, Settled]\<rparr>))
       (release (fst (dispatch m (on_query f) rq
            (c\<lparr>res := None, acquired := Suc (acquired c),
               trace := trace c @ [Acquired, Settled, Settled]\<rparr>))))"
  by (cases rq)
     (simp_all add: serve_def middleware_def getConnection_def query_def set_session_def
        split: prod.splits)

lemma serve_get_car:
  "serve m no_faults GetCar c =
     c\<lparr>res := Some \<lparr>status = 200,
                     body = Json (Obj [(''cars'', Arr (map Row (filter (\<lambda>r. deleted_flag r = 0) (cars (db c)))))])\<rparr>,
       acquired := Suc (acquired c), released := Suc (released c),
       trace := trace c @ [Acquired, Settled, Settled, Released, Settled, Answered 200]\<rparr>"
  by (simp add: serve_ok no_faults_def dispatch_def get_car_def base_defs)

lemma serve_post_car:
  "serve m no_faults (PostCar b) c =
     c\<lparr>db := (db c)\<lparr>cars := cars (db c) @
                  [\<lparr>car_id = next_id (db c), car_make = bind (b ''make''),
                    car_model = bind (b ''model''), car_year = bind (b ''year''),
                    deleted_flag = 0,
                    date_created = (if stamped (db c) then Some (clock (db c)) else None)\<rparr>],
                next_id := Suc (next_id (db c))\<rparr>,
       res := Some \<lparr>status = 200,
                     body = Json (Obj (present [(''id'', Some (Num (int (next_id (db c))))),
                                                (''make'', b ''make''), (''model'', b ''model''),
                                                (''year'', b ''year''),
                                                (''success'', Some (Bool True))]))\<rparr>,
       acquired := Suc (acquired c), released := Suc (released c),
       trace := trace c @ [Acquired, Settled, Settled, Released, Settled, Answered 200]\<rparr>"
  by (simp add: serve_ok no_faults_def dispatch_def post_car_def base_defs Let_def)

lemma serve_put_car:
  "serve m no_faults (PutCar b) c =
     c\<lparr>db := (db c)\<lparr>cars := map (\<lambda>r. if m (bind (b ''id'')) (car_id r)
                    then r\<lparr>car_make := bind (b ''make''), car_model := bind (b ''model''),
                           car_year := bind (b ''year'')\<rparr> else r) (cars (db c))\<rparr>,
       res := Some \<lparr>status = 200,
                     body = Json (Obj (present [(''id'', b ''id''), (''make'', b ''make''),
                                                (''model'', b ''model''), (''year'', b ''year''),
                                                (''success'', Some (Bool True))]))\<rparr>,
       acquired := Suc (acquired c), released := Suc (released c),
       console := console c @ [''Car updated successfully:''],
       trace := trace c @ [Acquired, Settled, Settled, Released, Settled, Answered 200]\<rparr>"
  by (simp add: serve_ok no_faults_def dispatch_def put_car_def base_defs Let_def)

lemma serve_delete_car:
  "serve m no_faults (DeleteCar i) c =
     c\<lparr>db := (db c)\<lparr>cars := map (\<lambda>r. if m (Str i) (car_id r)
                    then r\<lparr>deleted_flag := 1\<rparr> else r) (cars (db c))\<rparr>,
       res := Some \<lparr>status = 200, body = Json (Obj [(''success'', Val (Bool True))])\<rparr>,
       acquired := Suc (acquired c), released := Suc (released c),
       console := console c @ [''Received DELETE request for car with ID: '' @ i],
       trace := trace c @ [Acquired, Settled, Settled, Released, Settled, Answered 200]\<rparr>"
  by (simp add: serve_ok no_faults_def dispatch_def delete_car_settle_def base_defs Let_def)

lemma creates_appends:
  "\<exists>new. cars (db (creates m bs c)) = cars (db c) @ new \<and> length new = length bs
         \<and> list_all (\<lambda>r. deleted_flag r = 0) new"
proof (induction bs arbitrary: c)
  case Nil
  show ?case by simp
next
  case (Cons b bs)
  let ?c1 = "serve m no_faults (PostCar b) c"
  from Cons.IH [of ?c1] obtain new where
    n: "cars (db (creates m bs ?c1)) = cars (db ?c1) @ new" "length new = length bs"
       "list_all (\<lambda>r. deleted_flag r = 0) new"
    by blast
  obtain r where r: "cars (db ?c1) = cars (db c) @ [r]" "deleted_flag r = 0"
    by (simp add: serve_post_car)
  have "cars (db (creates m (b # bs) c)) = cars (db c) @ (r # new)"
    using n r by simp
  moreover have "length (r # new) = length (b # bs)" using n by simp
  moreover have "list_all (\<lambda>r. deleted_flag r = 0) (r # new)" using n r by simp
  ultimately show ?case by blast
qed

lemma middleware_catch_pool:
  "acquired (middleware_catch h msg c) = acquired c"
  "released (middleware_catch h msg c) = (if h then Suc (released c) else released c)"
  "db (middleware_catch h msg c) = db c"
  by (simp_all add: middleware_catch_def base_defs split: option.splits)

lemma middleware_catch_res:
  "res c = None \<Longrightarrow>
   res (middleware_catch h msg c) =
     Some \<lparr>status = 500,
           body = error_body ''Internal Server Error: Unable to connect to cars database'' msg\<rparr>"
  by (simp add: middleware_catch_def release_def reply_def log_line_def)

lemma serve_failed:
  "rq \<noteq> Malformed \<Longrightarrow> on_acquire f = Some msg \<Longrightarrow>
     serve m f rq c = middleware_catch False msg (c\<lparr>res := None\<rparr>)"
  "rq \<noteq> Malformed \<Longrightarrow> on_acquire f = None \<Longrightarrow> on_sql_mode f = Some msg \<Longrightarrow>
     serve m f rq c =
       middleware_catch True msg
         (c\<lparr>res := None, acquired := Suc (acquired c), trace := trace c @ [Acquired]\<rparr>)"
  "rq \<noteq> Malformed \<Longrightarrow> on_acquire f = None \<Longrightarrow> on_sql_mode f = None \<Longrightarrow>
   on_time_zone f = Some msg \<Longrightarrow>
     serve m f rq c =
       middleware_catch True msg
         (c\<lparr>res := None, acquired := Suc (acquired c),
            trace := trace c @ [Acquired, Settled]\<rparr>)"
  by (cases rq;
      simp add: serve_def middleware_def getConnection_def query_def set_session_def)+

lemma serve_malformed:
  "serve m f Malformed c =
     c\<lparr>res := Some \<lparr>status = 400, body = Page\<rparr>, trace := trace c @ [Answered 400]\<rparr>"
  by (simp add: serve_def reply_def)

lemma dispatch_pool:
  assumes "rq \<noteq> Malformed"
  shows "acquired (snd (dispatch m q rq c) (release (fst (dispatch m q rq c)))) = acquired c"
    and "released (snd (dispatch m q rq c) (release (fst (dispatch m q rq c)))) = Suc (released c)"
  using assms
  by (cases rq; cases q;
      simp add: dispatch_def get_root_def get_car_def post_car_def put_car_def
        delete_car_settle_def base_defs Let_def split: option.splits)+

lemma serve_cases:
  obtains (malformed) "rq = Malformed"
    | (failed) h msg c1 where "serve m f rq c = middleware_catch h msg c1" "db c1 = db c"
       "res c1 = None" "rq \<noteq> Malformed"
       "on_acquire f = Some msg \<or> on_acquire f = None \<and> on_sql_mode f = Some msg \<or>
        on_acquire f = None \<and> on_sql_mode f = None \<and> on_time_zone f = Some msg"
    | (routed) c1 where
       "serve m f rq c =
          snd (dispatch m (on_query f) rq c1) (release (fst (dispatch m (on_query f) rq c1)))"
       "db c1 = db c" "res c1 = None" "rq \<noteq> Malformed"
       "on_acquire f = None" "on_sql_mode f = None" "on_time_zone f = None"
proof (cases "rq = Malformed")
  case True
  then show ?thesis by (rule malformed)
next
  case nm: False
  show ?thesis
  proof (cases "on_acquire f")
    case (Some a)
    show ?thesis
      by (rule failed [OF serve_failed(1) [OF nm Some]]) (simp_all add: Some nm)
  next
    case None
    note acq = None
    show ?thesis
    proof (cases "on_sql_mode f")
      case (Some a)
      show ?thesis
        by (rule failed [OF serve_failed(2) [OF nm acq Some]]) (simp_all add: acq Some nm)
    next
      case None
      note mode = None
      show ?thesis
      proof (cases "on_time_zone f")
        case (Some a)
        show ?thesis
          by (rule failed [OF serve_failed(3) [OF nm acq mode Some]])
             (simp_all add: acq mode Some nm)
      next
        case None
        show ?thesis
          by (rule routed [OF serve_ok [OF acq mode None nm]]) (simp_all add: acq mode None nm)
      qed
    qed
  qed
qed

lemma ids_keep [simp]:
  "ids (release c) = ids c" "ids (middleware_catch h msg c) = ids c"
  by (simp_all add: ids_def middleware_catch_pool release_def)

lemma car_id_if:
  "car_id \<circ> (\<lambda>r. if P r then r\<lparr>car_make := a, car_model := b, car_year := y\<rparr> else r)
     = car_id"
  "car_id \<circ> (\<lambda>r. if P r then r\<lparr>deleted_flag := n\<rparr> else r) = car_id"
  by (rule ext, simp)+

lemma dispatch_ids:
  "ids c \<subseteq> ids (snd (dispatch m q rq c) (release (fst (dispatch m q rq c))))"
proof -
  let ?c' = "snd (dispatch m q rq c) (release (fst (dispatch m q rq c)))"
  have "\<exists>new. map car_id (cars (db ?c')) = map car_id (cars (db c)) @ new"
    by (cases rq; cases q)
       (simp_all add: dispatch_def get_root_def get_car_def post_car_def put_car_def
          delete_car_settle_def base_defs Let_def car_id_if split: option.splits)
  then obtain new where "map car_id (cars (db ?c')) = map car_id (cars (db c)) @ new" ..
  then have "set (map car_id (cars (db c))) \<subseteq> set (map car_id (cars (db ?c')))"
    by simp
  then show ?thesis by (simp add: ids_def)
qed

lemma serve_ids: "ids c \<subseteq> ids (serve m f rq c)"
proof (cases rule: serve_cases [where rq = rq and m = m and f = f and c = c])
  case malformed
  then show ?thesis by (simp add: serve_malformed ids_def)
next
  case (failed h msg c1)
  then show ?thesis by (simp add: ids_def middleware_catch_pool)
next
  case (routed c1)
  have "ids c = ids c1" using routed(2) by (simp add: ids_def)
  then show ?thesis using dispatch_ids [of c1 m "on_query f" rq] routed(1) by simp
qed

lemma map_if_none:
  "\<forall>r \<in> set xs. \<not> P r \<Longrightarrow> map (\<lambda>r. if P r then g r else r) xs = xs"
  by (induction xs) simp_all

lemma dispatch_answer:
  assumes "res c = None" "rq \<noteq> Malformed"
  shows "\<exists>r. res (snd (dispatch m q rq c) (release (fst (dispatch m q rq c)))) = Some r \<and>
           (status r = 200 \<or>
            status r = 500 \<and>
              (\<exists>e d. body r = Json (Obj [(''error'', Val (Str e)), (''details'', Val (Str d))])) \<or>
            status r = 404 \<and> rq = Unmatched \<and> body r = Page)"
  using assms
  by (cases rq; cases q)
     (simp_all add: dispatch_def get_root_def get_car_def post_car_def put_car_def
        delete_car_settle_def base_defs Let_def)

lemma dispatch_failed:
  assumes "res c = None" "rq \<noteq> GetRoot" "rq \<noteq> Malformed" "rq \<noteq> Unmatched"
  shows "(\<exists>e. res (snd (dispatch m (Some msg) rq c) (release (fst (dispatch m (Some msg) rq c))))
               = Some \<lparr>status = 500, body = error_body e msg\<rparr>)
         \<and> db (snd (dispatch m (Some msg) rq c) (release (fst (dispatch m (Some msg) rq c)))) = db c"
proof (cases rq)
  case GetRoot
  then show ?thesis using assms by simp
next
  case GetCar
  then show ?thesis using assms(1)
    by (simp add: dispatch_def get_car_def query_def reply_def log_line_def release_def) blast
next
  case (PostCar b)
  then show ?thesis using assms(1)
    by (simp add: dispatch_def post_car_def query_def reply_def log_line_def release_def) blast
next
  case (PutCar b)
  then show ?thesis using assms(1)
    by (simp add: dispatch_def put_car_def query_def reply_def log_line_def release_def) blast
next
  case (DeleteCar i)
  then show ?thesis using assms(1)
    by (simp add: dispatch_def delete_car_settle_def query_def reply_def log_line_def
          release_def) blast
next
  case Malformed
  then show ?thesis using assms by simp
next
  case Unmatched
  then show ?thesis using assms by simp
qed


lemma map_if_unique:
  assumes "distinct (map car_id xs)" "k < length xs"
  shows "map (\<lambda>x. if car_id x = car_id (xs ! k) then g x else x) xs = xs[k := g (xs ! k)]"
proof (rule nth_equalityI)
  show "length (map (\<lambda>x. if car_id x = car_id (xs ! k) then g x else x) xs)
        = length (xs[k := g (xs ! k)])" by simp
next
  fix j assume "j < length (map (\<lambda>x. if car_id x = car_id (xs ! k) then g x else x) xs)"
  then have j: "j < length xs" by simp
  have "car_id (xs ! j) = car_id (xs ! k) \<longleftrightarrow> j = k"
    using assms j nth_eq_iff_index_eq [of "map car_id xs" j k] by simp
  then show "map (\<lambda>x. if car_id x = car_id (xs ! k) then g x else x) xs ! j
             = xs[k := g (xs ! k)] ! j"
    using j by (simp add: nth_list_update)
qed

section \<open>Properties\<close>

text \<open>
  C1, on the code. For GET /car on any table, with the pool and the session statements
  succeeding, the events of the request come in this order: the connection is handed
  out, the two session statements settle, the connection is given back, and only then
  does the handler's SELECT settle and the handler answer (200, or 500 when the SELECT
  fails). The connection is handed out once and given back once, but it is given back
  before the route handler has completed, not on its completion.
\<close>

theorem C1_release_precedes_the_handler:
  "trace (serve m (no_faults\<lparr>on_query := q\<rparr>) GetCar c) =
     trace c @ [Acquired, Settled, Settled, Released] @
       (case q of None \<Rightarrow> [Settled, Answered 200] | Some msg \<Rightarrow> [Answered 500])
   \<and> acquired (serve m (no_faults\<lparr>on_query := q\<rparr>) GetCar c) = Suc (acquired c)
   \<and> released (serve m (no_faults\<lparr>on_query := q\<rparr>) GetCar c) = Suc (released c)"
  by (cases q)
     (simp_all add: serve_ok no_faults_def dispatch_def get_car_def query_def reply_def
        release_def log_line_def select_active_def)

text \<open>C1 on the empty table.\<close>

theorem C1_on_the_empty_table:
  "trace (serve by_value no_faults GetCar start) =
     [Acquired, Settled, Settled, Released, Settled, Answered 200]"
  using C1_release_precedes_the_handler [of by_value None start]
  by (simp add: start_def no_faults_def)

text \<open>
  C2. When no call fails, GET /car answers 200 with \<open>{ cars: [...] }\<close> whose rows are
  exactly the rows of the table with \<open>deleted_flag = 0\<close>, each as often as the table
  holds it, and leaves the table as it was. After a run of creates the table is the old
  one followed by one new row per create, each with \<open>deleted_flag = 0\<close>, and GET /car
  returns the old active rows and all the new ones.
\<close>

theorem C2_get_car_returns_active_rows:
  "\<exists>rows new.
      res (serve m no_faults GetCar c) =
        Some \<lparr>status = 200, body = Json (Obj [(''cars'', Arr (map Row rows))])\<rparr>
    \<and> mset rows = filter_mset (\<lambda>r. deleted_flag r = 0) (mset (cars (db c)))
    \<and> (\<forall>r. r \<in> set rows \<longleftrightarrow> r \<in> set (cars (db c)) \<and> deleted_flag r = 0)
    \<and> db (serve m no_faults GetCar c) = db c
    \<and> cars (db (creates m bs c)) = cars (db c) @ new
    \<and> length new = length bs
    \<and> list_all (\<lambda>r. deleted_flag r = 0) new
    \<and> res (serve m no_faults GetCar (creates m bs c)) =
        Some \<lparr>status = 200, body = Json (Obj [(''cars'', Arr (map Row (rows @ new)))])\<rparr>"
proof -
  obtain new where
    n: "cars (db (creates m bs c)) = cars (db c) @ new" "length new = length bs"
       "list_all (\<lambda>r. deleted_flag r = 0) new"
    using creates_appends by blast
  let ?rows = "filter (\<lambda>r. deleted_flag r = 0) (cars (db c))"
  have f: "filter (\<lambda>r. deleted_flag r = 0) new = new"
    using n(3) by (simp add: list_all_iff)
  have "res (serve m no_faults GetCar (creates m bs c)) =
        Some \<lparr>status = 200, body = Json (Obj [(''cars'', Arr (map Row (?rows @ new)))])\<rparr>"
    by (simp add: serve_get_car n(1) f)
  moreover have "res (serve m no_faults GetCar c) =
        Some \<lparr>status = 200, body = Json (Obj [(''cars'', Arr (map Row ?rows))])\<rparr>"
    by (simp add: serve_get_car)
  moreover have "db (serve m no_faults GetCar c) = db c"
    by (simp add: serve_get_car)
  moreover have "mset ?rows = filter_mset (\<lambda>r. deleted_flag r = 0) (mset (cars (db c)))"
    by simp
  moreover have "\<forall>r. r \<in> set ?rows \<longleftrightarrow> r \<in> set (cars (db c)) \<and> deleted_flag r = 0"
    by simp
  ultimately show ?thesis using n by blast
qed

text \<open>C2 on the table of two rows, one of them soft-deleted, and after one create.\<close>

theorem C2_witness:
  "\<exists>new.
      res (serve by_value no_faults GetCar garage) =
        Some \<lparr>status = 200,
              body = Json (Obj [(''cars'',
                       Arr [Row \<lparr>car_id = 2, car_make = Str ''Kia'', car_model = Str ''Rio'',
                                 car_year = Num 2019, deleted_flag = 0,
                                 date_created = Some 8\<rparr>])])\<rparr>
    \<and> cars (db (creates by_value [ford] garage)) = cars (db garage) @ new
    \<and> length new = 1
    \<and> res (serve by_value no_faults GetCar (creates by_value [ford] garage)) =
        Some \<lparr>status = 200,
              body = Json (Obj [(''cars'',
                       Arr (map Row (\<lparr>car_id = 2, car_make = Str ''Kia'', car_model = Str ''Rio'',
                                      car_year = Num 2019, deleted_flag = 0,
                                      date_created = Some 8\<rparr> # new)))])\<rparr>"
proof -
  let ?kia = "\<lparr>car_id = 2, car_make = Str ''Kia'', car_model = Str ''Rio'',
               car_year = Num 2019, deleted_flag = 0, date_created = Some 8\<rparr>"
  from C2_get_car_returns_active_rows [of by_value garage "[ford]"]
  obtain rows new where
    h: "res (serve by_value no_faults GetCar garage) =
          Some \<lparr>status = 200, body = Json (Obj [(''cars'', Arr (map Row rows))])\<rparr>"
       "mset rows = filter_mset (\<lambda>r. deleted_flag r = 0) (mset (cars (db garage)))"
       "cars (db (creates by_value [ford] garage)) = cars (db garage) @ new"
       "length new = length [ford]"
       "res (serve by_value no_faults GetCar (creates by_value [ford] garage)) =
          Some \<lparr>status = 200, body = Json (Obj [(''cars'', Arr (map Row (rows @ new)))])\<rparr>"
    by blast
  from h(2) have "mset rows = {#?kia#}" by (simp add: garage_def)
  then have "rows = [?kia]" by simp
  with h show ?thesis by auto
qed

text \<open>
  C3. Whatever the request and whichever call fails, every row id of the table is still
  in the table afterwards. A DELETE /car/:id that succeeds keeps the number of rows and
  changes a row only if its id matches, and then only by setting \<open>deleted_flag\<close> to 1:
  a row of the table whose id matches is still stored, with \<open>deleted_flag = 1\<close>, so is
  every row with that id, and a GET /car after it returns no row with that id.
\<close>

theorem C3_rows_are_never_removed:
  "ids c \<subseteq> ids (serve m f rq c)
   \<and> (r \<in> set (cars (db c)) \<and> m (Str i) (car_id r) \<longrightarrow>
        r\<lparr>deleted_flag := 1\<rparr> \<in> set (cars (db (serve m no_faults (DeleteCar i) c)))
      \<and> (\<forall>x \<in> set (cars (db (serve m no_faults (DeleteCar i) c))).
            car_id x = car_id r \<longrightarrow> deleted_flag x = 1)
      \<and> (\<exists>rows. res (serve m no_faults GetCar (serve m no_faults (DeleteCar i) c)) =
                    Some \<lparr>status = 200, body = Json (Obj [(''cars'', Arr (map Row rows))])\<rparr>
                 \<and> car_id r \<notin> car_id ` set rows))
   \<and> length (cars (db (serve m no_faults (DeleteCar i) c))) = length (cars (db c))
   \<and> (\<forall>k < length (cars (db c)).
         cars (db (serve m no_faults (DeleteCar i) c)) ! k =
           (if m (Str i) (car_id (cars (db c) ! k))
            then (cars (db c) ! k)\<lparr>deleted_flag := 1\<rparr> else cars (db c) ! k))"
proof -
  let ?c' = "serve m no_faults (DeleteCar i) c"
  let ?del = "\<lambda>r. if m (Str i) (car_id r) then r\<lparr>deleted_flag := 1\<rparr> else r"
  have cs: "cars (db ?c') = map ?del (cars (db c))"
    by (simp add: serve_delete_car)
  have frame: "length (cars (db ?c')) = length (cars (db c))"
    "\<forall>k < length (cars (db c)).
         cars (db ?c') ! k =
           (if m (Str i) (car_id (cars (db c) ! k))
            then (cars (db c) ! k)\<lparr>deleted_flag := 1\<rparr> else cars (db c) ! k)"
    unfolding cs by simp_all
  have del: "r\<lparr>deleted_flag := 1\<rparr> \<in> set (cars (db ?c'))
        \<and> (\<forall>x \<in> set (cars (db ?c')). car_id x = car_id r \<longrightarrow> deleted_flag x = 1)
        \<and> (\<exists>rows. res (serve m no_faults GetCar ?c') =
                    Some \<lparr>status = 200, body = Json (Obj [(''cars'', Arr (map Row rows))])\<rparr>
                 \<and> car_id r \<notin> car_id ` set rows)"
    if r: "r \<in> set (cars (db c))" and mt: "m (Str i) (car_id r)"
  proof -
    have "r\<lparr>deleted_flag := 1\<rparr> \<in> ?del ` set (cars (db c))"
      using r mt by (intro image_eqI [where x = r]) simp_all
    then have a: "r\<lparr>deleted_flag := 1\<rparr> \<in> set (cars (db ?c'))" using cs by simp
    have b: "\<forall>x \<in> set (cars (db ?c')). car_id x = car_id r \<longrightarrow> deleted_flag x = 1"
      unfolding cs using mt by auto
    let ?rows = "filter (\<lambda>x. deleted_flag x = 0) (cars (db ?c'))"
    have "res (serve m no_faults GetCar ?c') =
            Some \<lparr>status = 200, body = Json (Obj [(''cars'', Arr (map Row ?rows))])\<rparr>"
      by (simp add: serve_get_car)
    moreover have "car_id r \<notin> car_id ` set ?rows" using b by auto
    ultimately show ?thesis using a b by blast
  qed
  show ?thesis using serve_ids [of c m f rq] del frame by blast
qed

text \<open>C3 on the table of two rows: DELETE /car/2 keeps both rows, flagged, and GET /car is empty.\<close>

theorem C3_witness:
  "ids garage \<subseteq> ids (serve by_value no_faults (DeleteCar ''2'') garage)
   \<and> map deleted_flag (cars (db (serve by_value no_faults (DeleteCar ''2'') garage))) = [1, 1]
   \<and> map car_id (cars (db (serve by_value no_faults (DeleteCar ''2'') garage))) = [1, 2]
   \<and> res (serve by_value no_faults GetCar (serve by_value no_faults (DeleteCar ''2'') garage)) =
       Some \<lparr>status = 200, body = Json (Obj [(''cars'', Arr [])])\<rparr>"
  using C3_rows_are_never_removed
          [of garage by_value no_faults "DeleteCar ''2''"
              "\<lparr>car_id = 2, car_make = Str ''Kia'', car_model = Str ''Rio'',
                car_year = Num 2019, deleted_flag = 0, date_created = Some 8\<rparr>" "''2''"]
  by (simp add: serve_delete_car serve_get_car garage_def by_value_def)

text \<open>
  C4. When the id of the request selects no row of the table and no call fails, PUT /car
  and DELETE /car/:id leave the table as it is and answer 200, PUT with
  \<open>{id, make, model, year, success: true}\<close> echoing the body's four values and DELETE
  with \<open>{success: true}\<close>. The answer does not depend on the table at all: it is the
  same from any other state \<open>c'\<close>, whether rows were changed there or not.
\<close>

theorem C4_missing_id_reports_success:
  assumes idv: "b ''id'' = Some iv"
      and put: "\<forall>r \<in> set (cars (db c)). \<not> m iv (car_id r)"
      and del: "\<forall>r \<in> set (cars (db c)). \<not> m (Str i) (car_id r)"
  shows "db (serve m no_faults (PutCar b) c) = db c
       \<and> map_option status (res (serve m no_faults (PutCar b) c)) = Some 200
       \<and> (b ''make'' = Some mk \<and> b ''model'' = Some md \<and> b ''year'' = Some yr \<longrightarrow>
            res (serve m no_faults (PutCar b) c) =
              Some \<lparr>status = 200,
                    body = Json (Obj [(''id'', Val iv), (''make'', Val mk), (''model'', Val md),
                                      (''year'', Val yr), (''success'', Val (Bool True))])\<rparr>)
       \<and> db (serve m no_faults (DeleteCar i) c) = db c
       \<and> res (serve m no_faults (DeleteCar i) c) =
           Some \<lparr>status = 200, body = Json (Obj [(''success'', Val (Bool True))])\<rparr>
       \<and> res (serve m no_faults (PutCar b) c) = res (serve m no_faults (PutCar b) c')
       \<and> res (serve m no_faults (DeleteCar i) c) = res (serve m no_faults (DeleteCar i) c')"
proof -
  have put': "\<forall>r \<in> set (cars (db c)). \<not> m (bind (b ''id'')) (car_id r)"
    using put idv by (simp add: bind_def)
  have "db (serve m no_faults (PutCar b) c) = db c"
    by (simp add: serve_put_car map_if_none [OF put'])
  moreover have "db (serve m no_faults (DeleteCar i) c) = db c"
    by (simp add: serve_delete_car map_if_none [OF del])
  ultimately show ?thesis
    by (simp add: serve_put_car serve_delete_car idv)
qed

text \<open>
  C4 on the table of two rows, for the id 5, which the table does not hold; the answer is
  the same from a table that holds the id 5.
\<close>

theorem C4_witness:
  "db (serve by_value no_faults (PutCar (honda(''id'' \<mapsto> Num 5))) garage) = db garage
   \<and> res (serve by_value no_faults (PutCar (honda(''id'' \<mapsto> Num 5))) garage) =
       Some \<lparr>status = 200,
             body = Json (Obj [(''id'', Val (Num 5)), (''make'', Val (Str ''Honda'')),
                               (''model'', Val (Str ''Civic'')), (''year'', Val (Num 2020)),
                               (''success'', Val (Bool True))])\<rparr>
   \<and> db (serve by_value no_faults (DeleteCar ''5'') garage) = db garage
   \<and> res (serve by_value no_faults (DeleteCar ''5'') garage) =
       Some \<lparr>status = 200, body = Json (Obj [(''success'', Val (Bool True))])\<rparr>
   \<and> res (serve by_value no_faults (PutCar (honda(''id'' \<mapsto> Num 5)))
            (creates by_value [ford, ford, ford] garage)) =
       res (serve by_value no_faults (PutCar (honda(''id'' \<mapsto> Num 5))) garage)
   \<and> map car_id (cars (db (creates by_value [ford, ford, ford] garage))) = [1, 2, 3, 4, 5]"
proof -
  let ?b = "honda(''id'' \<mapsto> Num 5)"
  have idv: "?b ''id'' = Some (Num 5)" by simp
  have put: "\<forall>r \<in> set (cars (db garage)). \<not> by_value (Num 5) (car_id r)"
    by (simp add: garage_def by_value_def)
  have del: "\<forall>r \<in> set (cars (db garage)). \<not> by_value (Str ''5'') (car_id r)"
    by (simp add: garage_def by_value_def)
  have f: "?b ''make'' = Some (Str ''Honda'') \<and> ?b ''model'' = Some (Str ''Civic'')
           \<and> ?b ''year'' = Some (Num 2020)"
    by (simp add: honda_def)
  have ids: "map car_id (cars (db (creates by_value [ford, ford, ford] garage))) = [1, 2, 3, 4, 5]"
    by (simp add: serve_post_car garage_def)
  note h = C4_missing_id_reports_success
         [where b = ?b and iv = "Num 5" and c = garage and m = by_value and i = "''5''"
            and mk = "Str ''Honda''" and md = "Str ''Civic''" and yr = "Num 2020"
            and c' = "creates by_value [ford, ford, ford] garage", OF idv put del]
  from h have h1: "db (serve by_value no_faults (PutCar ?b) garage) = db garage"
    and h4: "db (serve by_value no_faults (DeleteCar ''5'') garage) = db garage"
    and h5: "res (serve by_value no_faults (DeleteCar ''5'') garage) =
       Some \<lparr>status = 200, body = Json (Obj [(''success'', Val (Bool True))])\<rparr>"
    and h6: "res (serve by_value no_faults (PutCar ?b) garage) =
       res (serve by_value no_faults (PutCar ?b) (creates by_value [ford, ford, ford] garage))"
    by blast+
  from h f have h3: "res (serve by_value no_faults (PutCar ?b) garage) =
       Some \<lparr>status = 200,
             body = Json (Obj [(''id'', Val (Num 5)), (''make'', Val (Str ''Honda'')),
                               (''model'', Val (Str ''Civic'')), (''year'', Val (Num 2020)),
                               (''success'', Val (Bool True))])\<rparr>"
    by blast
  show ?thesis
    by (intro conjI) (rule h1, rule h3, rule h4, rule h5, rule h6 [symmetric], rule ids)
qed

text \<open>
  C5, as stated, fails: a request whose body does not parse is answered 400, before the
  connection middleware is entered.
\<close>

theorem C5_counterexample:
  "map_option status (res (serve by_value no_faults Malformed garage)) = Some 400"
  by (simp add: serve_malformed)

text \<open>
  C5, amended. Every request is answered: with 200, with 500 and a body
  \<open>{error, details}\<close> of two strings, with 400 only if its body does not parse, or with
  404 only if no route matches it, the last two being pages of the framework. If
  acquiring the connection or a session statement fails with message \<open>msg\<close>, the
  answer is the middleware's 500 with \<open>details = msg\<close>; if these succeed and the query
  of one of the four handlers of \<^verbatim>\<open>/car\<close> fails with \<open>msg\<close>, the answer is a 500 with
  \<open>details = msg\<close>. In both cases the table is left as it was. A body that does not
  parse is answered 400 without a connection being acquired, and a request no route
  matches is answered 404 once the connection has been set up. After every request as
  many connections are checked out as before it.
\<close>

theorem C5_failures_answer_500:
  "(\<exists>r. res (serve m f rq c) = Some r \<and>
        (status r = 200 \<or>
         status r = 500 \<and>
           (\<exists>e d. body r = Json (Obj [(''error'', Val (Str e)), (''details'', Val (Str d))])) \<or>
         status r = 400 \<and> rq = Malformed \<and> body r = Page \<or>
         status r = 404 \<and> rq = Unmatched \<and> body r = Page))
   \<and> (rq \<noteq> Malformed \<and>
      (on_acquire f = Some msg \<or>
       on_acquire f = None \<and> on_sql_mode f = Some msg \<or>
       on_acquire f = None \<and> on_sql_mode f = None \<and> on_time_zone f = Some msg) \<longrightarrow>
        res (serve m f rq c) =
          Some \<lparr>status = 500,
                body = Json (Obj [(''error'', Val (Str ''Internal Server Error: Unable to connect to cars database'')),
                                  (''details'', Val (Str msg))])\<rparr>
        \<and> db (serve m f rq c) = db c)
   \<and> (on_acquire f = None \<and> on_sql_mode f = None \<and> on_time_zone f = None \<and>
      on_query f = Some msg \<and> rq \<noteq> GetRoot \<and> rq \<noteq> Malformed \<and> rq \<noteq> Unmatched \<longrightarrow>
        (\<exists>e. res (serve m f rq c) =
               Some \<lparr>status = 500,
                     body = Json (Obj [(''error'', Val (Str e)), (''details'', Val (Str msg))])\<rparr>)
        \<and> db (serve m f rq c) = db c)
   \<and> (rq = Malformed \<longrightarrow>
        res (serve m f rq c) = Some \<lparr>status = 400, body = Page\<rparr>
        \<and> acquired (serve m f rq c) = acquired c \<and> db (serve m f rq c) = db c)
   \<and> (rq = Unmatched \<and> on_acquire f = None \<and> on_sql_mode f = None \<and>
      on_time_zone f = None \<longrightarrow>
        res (serve m f rq c) = Some \<lparr>status = 404, body = Page\<rparr> \<and> db (serve m f rq c) = db c)
   \<and> acquired (serve m f rq c) + released c = acquired c + released (serve m f rq c)"
proof -
  let ?E = "''Internal Server Error: Unable to connect to cars database''"
  let ?R = "res (serve m f rq c)"
  let ?early = "on_acquire f = Some msg \<or>
      on_acquire f = None \<and> on_sql_mode f = Some msg \<or>
      on_acquire f = None \<and> on_sql_mode f = None \<and> on_time_zone f = Some msg"
  let ?late = "on_acquire f = None \<and> on_sql_mode f = None \<and> on_time_zone f = None \<and>
      on_query f = Some msg \<and> rq \<noteq> GetRoot \<and> rq \<noteq> Malformed \<and> rq \<noteq> Unmatched"
  let ?lost = "rq = Unmatched \<and> on_acquire f = None \<and> on_sql_mode f = None \<and>
      on_time_zone f = None"
  let ?A = "\<lambda>r. status r = 200 \<or>
         status r = 500 \<and>
           (\<exists>e d. body r = Json (Obj [(''error'', Val (Str e)), (''details'', Val (Str d))])) \<or>
         status r = 400 \<and> rq = Malformed \<and> body r = Page \<or>
         status r = 404 \<and> rq = Unmatched \<and> body r = Page"
  have "(\<exists>r. ?R = Some r \<and> ?A r)
      \<and> (rq \<noteq> Malformed \<and> ?early \<longrightarrow> ?R = Some \<lparr>status = 500, body = error_body ?E msg\<rparr>
                        \<and> db (serve m f rq c) = db c)
      \<and> (?late \<longrightarrow> (\<exists>e. ?R = Some \<lparr>status = 500, body = error_body e msg\<rparr>)
                        \<and> db (serve m f rq c) = db c)
      \<and> (rq = Malformed \<longrightarrow> ?R = Some \<lparr>status = 400, body = Page\<rparr>
            \<and> acquired (serve m f rq c) = acquired c \<and> db (serve m f rq c) = db c)
      \<and> (?lost \<longrightarrow> ?R = Some \<lparr>status = 404, body = Page\<rparr> \<and> db (serve m f rq c) = db c)
      \<and> acquired (serve m f rq c) + released c = acquired c + released (serve m f rq c)"
  proof (cases rule: serve_cases [where rq = rq and m = m and f = f and c = c])
    case malformed
    have c1: "\<exists>r. ?R = Some r \<and> ?A r"
      unfolding malformed by (simp add: serve_malformed)
    have c4: "?R = Some \<lparr>status = 400, body = Page\<rparr>
            \<and> acquired (serve m f rq c) = acquired c \<and> db (serve m f rq c) = db c"
      unfolding malformed by (simp add: serve_malformed)
    have p: "acquired (serve m f rq c) + released c = acquired c + released (serve m f rq c)"
      unfolding malformed by (simp add: serve_malformed)
    have n: "\<not> ?late" "\<not> ?lost" using malformed by simp_all
    show ?thesis using c1 c4 p n malformed by blast
  next
    case (failed h a c1)
    have r: "?R = Some \<lparr>status = 500, body = error_body ?E a\<rparr>"
      using failed(1,3) by (simp add: middleware_catch_res)
    have d: "db (serve m f rq c) = db c"
      using failed(1,2) by (simp add: middleware_catch_pool)
    have p: "acquired (serve m f rq c) + released c = acquired c + released (serve m f rq c)"
    proof (cases "on_acquire f")
      case None
      then show ?thesis using failed(4,5)
        by (auto simp add: serve_failed middleware_catch_pool)
    next
      case (Some x)
      then show ?thesis using failed(4) by (simp add: serve_failed middleware_catch_pool)
    qed
    have c1: "\<exists>r. ?R = Some r \<and> ?A r"
      unfolding r error_body_def by simp
    have am: "a = msg" if ?early using that failed(5) by auto
    have c2: "rq \<noteq> Malformed \<and> ?early \<longrightarrow> ?R = Some \<lparr>status = 500, body = error_body ?E msg\<rparr>
                        \<and> db (serve m f rq c) = db c"
      using am r d by blast
    have n: "\<not> ?late" "\<not> ?lost" "rq \<noteq> Malformed" using failed(4,5) by auto
    show ?thesis using c1 c2 n p by blast
  next
    case (routed c1)
    let ?c' = "snd (dispatch m (on_query f) rq c1) (release (fst (dispatch m (on_query f) rq c1)))"
    have s: "serve m f rq c = ?c'" by (rule routed(1))
    have p: "acquired (serve m f rq c) + released c = acquired c + released (serve m f rq c)"
      using routed(4-7) by (simp add: serve_ok dispatch_pool)
    have c1: "\<exists>r. ?R = Some r \<and> ?A r"
      unfolding s using dispatch_answer [OF routed(3,4), of m "on_query f"] by blast
    have c2: "\<not> ?early" using routed(5-7) by simp
    have c3: "?late \<longrightarrow> (\<exists>e. ?R = Some \<lparr>status = 500, body = error_body e msg\<rparr>)
                        \<and> db (serve m f rq c) = db c"
    proof
      assume l: ?late
      then have q: "on_query f = Some msg" and g: "rq \<noteq> GetRoot" "rq \<noteq> Unmatched"
        by simp_all
      show "(\<exists>e. ?R = Some \<lparr>status = 500, body = error_body e msg\<rparr>)
                        \<and> db (serve m f rq c) = db c"
        unfolding s q using dispatch_failed [OF routed(3) g(1) routed(4) g(2), of m msg] routed(2)
        by simp
    qed
    have c5: "?lost \<longrightarrow> ?R = Some \<lparr>status = 404, body = Page\<rparr> \<and> db (serve m f rq c) = db c"
    proof
      assume l: ?lost
      then have u: "rq = Unmatched" by simp
      have "res ?c' = Some \<lparr>status = 404, body = Page\<rparr> \<and> db ?c' = db c"
        unfolding u using routed(2,3) by (simp add: dispatch_def reply_def release_def)
      then show "?R = Some \<lparr>status = 404, body = Page\<rparr> \<and> db (serve m f rq c) = db c"
        using s by simp
    qed
    show ?thesis using c1 c2 c3 c5 p routed(4) by blast
  qed
  then show ?thesis unfolding error_body_def .
qed

text \<open>
  C5 (amended) on the table of two rows: a create whose INSERT fails, a GET /car whose
  connection cannot be acquired, a body that does not parse, and a path without a route.
\<close>

theorem C5_witness:
  "res (serve by_value (no_faults\<lparr>on_query := Some ''ER_DUP''\<rparr>) (PostCar ford) garage) =
     Some \<lparr>status = 500,
           body = Json (Obj [(''error'', Val (Str ''Internal Server Error: Failed to create car'')),
                             (''details'', Val (Str ''ER_DUP''))])\<rparr>
   \<and> db (serve by_value (no_faults\<lparr>on_query := Some ''ER_DUP''\<rparr>) (PostCar ford) garage)
       = db garage
   \<and> res (serve by_value (no_faults\<lparr>on_acquire := Some ''ECONNREFUSED''\<rparr>) GetCar garage) =
     Some \<lparr>status = 500,
           body = Json (Obj [(''error'', Val (Str ''Internal Server Error: Unable to connect to cars database'')),
                             (''details'', Val (Str ''ECONNREFUSED''))])\<rparr>
   \<and> res (serve by_value no_faults Malformed garage) = Some \<lparr>status = 400, body = Page\<rparr>
   \<and> res (serve by_value no_faults Unmatched garage) = Some \<lparr>status = 404, body = Page\<rparr>"
proof -
  let ?f = "no_faults\<lparr>on_query := Some ''ER_DUP''\<rparr>"
  let ?g = "no_faults\<lparr>on_acquire := Some ''ECONNREFUSED''\<rparr>"
  have h: "on_acquire ?f = None \<and> on_sql_mode ?f = None \<and> on_time_zone ?f = None \<and>
           on_query ?f = Some ''ER_DUP'' \<and> PostCar ford \<noteq> GetRoot \<and> PostCar ford \<noteq> Malformed
           \<and> PostCar ford \<noteq> Unmatched"
    by (simp add: no_faults_def)
  have late: "(\<exists>e. res (serve by_value ?f (PostCar ford) garage) =
         Some \<lparr>status = 500,
               body = Json (Obj [(''error'', Val (Str e)), (''details'', Val (Str ''ER_DUP''))])\<rparr>)
       \<and> db (serve by_value ?f (PostCar ford) garage) = db garage"
    by (rule C5_failures_answer_500
          [of by_value ?f "PostCar ford" garage "''ER_DUP''",
           THEN conjunct2, THEN conjunct2, THEN conjunct1, THEN mp, OF h])
  have wording: "res (serve by_value ?f (PostCar ford) garage) =
     Some \<lparr>status = 500,
           body = Json (Obj [(''error'', Val (Str ''Internal Server Error: Failed to create car'')),
                             (''details'', Val (Str ''ER_DUP''))])\<rparr>"
    by (simp add: serve_ok no_faults_def dispatch_def post_car_def query_def reply_def
          log_line_def release_def error_body_def garage_def)
  have e: "GetCar \<noteq> Malformed \<and>
           (on_acquire ?g = Some ''ECONNREFUSED'' \<or>
            on_acquire ?g = None \<and> on_sql_mode ?g = Some ''ECONNREFUSED'' \<or>
            on_acquire ?g = None \<and> on_sql_mode ?g = None \<and> on_time_zone ?g = Some ''ECONNREFUSED'')"
    by simp
  have early: "res (serve by_value ?g GetCar garage) =
     Some \<lparr>status = 500,
           body = Json (Obj [(''error'', Val (Str ''Internal Server Error: Unable to connect to cars database'')),
                             (''details'', Val (Str ''ECONNREFUSED''))])\<rparr>
     \<and> db (serve by_value ?g GetCar garage) = db garage"
    by (rule C5_failures_answer_500
          [of by_value ?g GetCar garage "''ECONNREFUSED''",
           THEN conjunct2, THEN conjunct1, THEN mp, OF e])
  have bad: "res (serve by_value no_faults Malformed garage) = Some \<lparr>status = 400, body = Page\<rparr>
        \<and> acquired (serve by_value no_faults Malformed garage) = acquired garage
        \<and> db (serve by_value no_faults Malformed garage) = db garage"
    by (rule C5_failures_answer_500
          [of by_value no_faults Malformed garage "[]",
           THEN conjunct2, THEN conjunct2, THEN conjunct2, THEN conjunct1, THEN mp, OF refl])
  have u: "Unmatched = Unmatched \<and> on_acquire no_faults = None \<and> on_sql_mode no_faults = None
           \<and> on_time_zone no_faults = None"
    by (simp add: no_faults_def)
  have lost: "res (serve by_value no_faults Unmatched garage) = Some \<lparr>status = 404, body = Page\<rparr>
        \<and> db (serve by_value no_faults Unmatched garage) = db garage"
    by (rule C5_failures_answer_500
          [of by_value no_faults Unmatched garage "[]",
           THEN conjunct2, THEN conjunct2, THEN conjunct2, THEN conjunct2, THEN conjunct1,
           THEN mp, OF u])
  show ?thesis using late wording early bad lost by blast
qed



text \<open>
  C7. When ids are distinct, the request's id selects exactly the id of a row \<open>r\<close> of the
  table, the body holds make, model and year, and no call fails, PUT /car changes the
  table at exactly one position, the one holding \<open>r\<close>: there make, model and year
  become the body's values while id, \<open>deleted_flag\<close> and \<open>date_created\<close> stay; every
  other row, the id counter and the clock are as before. The handler of the notes has
  the same effect on the table.
\<close>

theorem C7_put_car_changes_one_row:
  assumes key: "key_ok (db c)"
      and row: "r \<in> set (cars (db c))"
      and idv: "b ''id'' = Some iv"
      and sel: "\<forall>j. m iv j \<longleftrightarrow> j = car_id r"
      and f1: "b ''make'' = Some mk" and f2: "b ''model'' = Some md"
      and f3: "b ''year'' = Some yr"
  shows "\<exists>k < length (cars (db c)).
           cars (db c) ! k = r
         \<and> db (serve m no_faults (PutCar b) c) =
             (db c)\<lparr>cars := (cars (db c))
                       [k := r\<lparr>car_make := mk, car_model := md, car_year := yr\<rparr>]\<rparr>
         \<and> db (put_car_notes m None b c) = db (serve m no_faults (PutCar b) c)
         \<and> car_id (cars (db (serve m no_faults (PutCar b) c)) ! k) = car_id r
         \<and> deleted_flag (cars (db (serve m no_faults (PutCar b) c)) ! k) = deleted_flag r
         \<and> date_created (cars (db (serve m no_faults (PutCar b) c)) ! k) = date_created r
         \<and> (\<forall>j < length (cars (db c)). j \<noteq> k \<longrightarrow>
               cars (db (serve m no_faults (PutCar b) c)) ! j = cars (db c) ! j)"
proof -
  let ?xs = "cars (db c)"
  let ?g = "\<lambda>x. x\<lparr>car_make := mk, car_model := md, car_year := yr\<rparr>"
  from row obtain k where k: "k < length ?xs" "?xs ! k = r"
    by (auto simp add: in_set_conv_nth)
  have d: "distinct (map car_id ?xs)" using key by (simp add: key_ok_def)
  have "map (\<lambda>x. if m iv (car_id x) then ?g x else x) ?xs
        = map (\<lambda>x. if car_id x = car_id (?xs ! k) then ?g x else x) ?xs"
    using sel k(2) by simp
  also have "\<dots> = ?xs[k := ?g (?xs ! k)]" by (rule map_if_unique [OF d k(1)])
  finally have u: "db (serve m no_faults (PutCar b) c) = (db c)\<lparr>cars := ?xs[k := ?g r]\<rparr>"
    using k(2) by (simp add: serve_put_car idv f1 f2 f3 bind_def cong: if_cong)
  have "car_id (cars (db (serve m no_faults (PutCar b) c)) ! k) = car_id r"
    "deleted_flag (cars (db (serve m no_faults (PutCar b) c)) ! k) = deleted_flag r"
    "date_created (cars (db (serve m no_faults (PutCar b) c)) ! k) = date_created r"
    "\<forall>j < length ?xs. j \<noteq> k \<longrightarrow> cars (db (serve m no_faults (PutCar b) c)) ! j = ?xs ! j"
    unfolding u using k(1) by simp_all
  moreover have "db (put_car_notes m None b c) = db (serve m no_faults (PutCar b) c)"
    by (simp add: put_car_notes_def serve_put_car query_def update_car_def reply_def Let_def
          split: option.splits)
  ultimately show ?thesis using k u by blast
qed

text \<open>
  C7 on the table of two rows: PUT for the id 1 rewrites the soft-deleted row, which keeps
  its flag and its timestamp, and leaves the row with id 2 as it was.
\<close>

theorem C7_witness:
  "cars (db (serve by_value no_faults (PutCar (honda(''id'' \<mapsto> Num 1))) garage)) =
     [\<lparr>car_id = 1, car_make = Str ''Honda'', car_model = Str ''Civic'', car_year = Num 2020,
       deleted_flag = 1, date_created = Some 3\<rparr>,
      \<lparr>car_id = 2, car_make = Str ''Kia'', car_model = Str ''Rio'', car_year = Num 2019,
       deleted_flag = 0, date_created = Some 8\<rparr>]"
proof -
  let ?b = "honda(''id'' \<mapsto> Num 1)"
  let ?r = "\<lparr>car_id = 1, car_make = Str ''Ford'', car_model = Str ''Taurus'',
             car_year = Num 2024, deleted_flag = 1, date_created = Some 3\<rparr>"
  have key: "key_ok (db garage)" by (simp add: garage_def key_ok_def)
  have row: "?r \<in> set (cars (db garage))" by (simp add: garage_def)
  have idv: "?b ''id'' = Some (Num 1)" by simp
  have sel: "\<forall>j. by_value (Num 1) j \<longleftrightarrow> j = car_id ?r"
    by (auto simp add: by_value_def)
  have f: "?b ''make'' = Some (Str ''Honda'')" "?b ''model'' = Some (Str ''Civic'')"
      "?b ''year'' = Some (Num 2020)"
    by (simp_all add: honda_def)
  from C7_put_car_changes_one_row
         [where c = garage and r = ?r and m = by_value and b = ?b and iv = "Num 1"
            and mk = "Str ''Honda''" and md = "Str ''Civic''" and yr = "Num 2020",
          OF key row idv sel f]
  obtain k where k: "k < length (cars (db garage))" "cars (db garage) ! k = ?r"
    "db (serve by_value no_faults (PutCar ?b) garage) =
       (db garage)\<lparr>cars := (cars (db garage))
          [k := ?r\<lparr>car_make := Str ''Honda'', car_model := Str ''Civic'',
                   car_year := Num 2020\<rparr>]\<rparr>"
    by blast
  from k(1,2) have "k = 0" by (cases k) (simp_all add: garage_def)
  with k(3) show ?thesis by (simp add: garage_def)
qed

text \<open>C8, as stated, fails: on success the two GET handlers answer under different keys.\<close>

theorem C8_counterexample:
  "res (get_car None start) \<noteq> res (get_car_notes None start)"
  by (simp add: get_car_def get_car_notes_def query_def select_active_def reply_def start_def)

text \<open>
  C8, amended. For every input the two versions of PUT and of DELETE give the same answer
  and the same table. The two versions of GET give the same table and the same status;
  their answers are the same when the query fails, and on success they hold the same rows
  under the key \<open>cars\<close> in src/expressDatabase.js and \<open>car\<close> in the notes. The two
  versions of the middleware give the same table, the same pool counters and the same
  status, and are equal outright when acquiring and the session statements succeed (they
  differ in the text of the 500 answer and of the console line).
\<close>

theorem C8_versions_agree_up_to_wording:
  "res (put_car m q b c) = res (put_car_notes m q b c)
   \<and> db (put_car m q b c) = db (put_car_notes m q b c)
   \<and> res (delete_car m q i c) = res (delete_car_notes m q i c)
   \<and> db (delete_car m q i c) = db (delete_car_notes m q i c)
   \<and> db (get_car q c) = db (get_car_notes q c)
   \<and> map_option status (res (get_car q c)) = map_option status (res (get_car_notes q c))
   \<and> (q \<noteq> None \<longrightarrow> res (get_car q c) = res (get_car_notes q c))
   \<and> (q = None \<and> res c = None \<longrightarrow>
        (\<exists>rows. res (get_car q c) =
                  Some \<lparr>status = 200, body = Json (Obj [(''cars'', Arr (map Row rows))])\<rparr>
              \<and> res (get_car_notes q c) =
                  Some \<lparr>status = 200, body = Json (Obj [(''car'', Arr (map Row rows))])\<rparr>))
   \<and> db (middleware f next c) = db (middleware_notes f next c)
   \<and> acquired (middleware f next c) = acquired (middleware_notes f next c)
   \<and> released (middleware f next c) = released (middleware_notes f next c)
   \<and> map_option status (res (middleware f next c))
       = map_option status (res (middleware_notes f next c))
   \<and> (on_acquire f = None \<and> on_sql_mode f = None \<and> on_time_zone f = None \<longrightarrow>
        middleware f next c = middleware_notes f next c)"
proof -
  have put: "res (put_car m q b c) = res (put_car_notes m q b c)"
       "db (put_car m q b c) = db (put_car_notes m q b c)"
    by (cases q; simp add: put_car_def put_car_notes_def query_def update_car_def reply_def
          log_line_def Let_def split: option.splits)+
  have del: "res (delete_car m q i c) = res (delete_car_notes m q i c)"
       "db (delete_car m q i c) = db (delete_car_notes m q i c)"
    by (cases q; simp add: delete_car_def delete_car_settle_def delete_car_notes_def query_def
          soft_delete_def reply_def log_line_def Let_def split: option.splits)+
  have get: "db (get_car q c) = db (get_car_notes q c)"
       "map_option status (res (get_car q c)) = map_option status (res (get_car_notes q c))"
       "q \<noteq> None \<longrightarrow> res (get_car q c) = res (get_car_notes q c)"
    by (cases q; simp add: get_car_def get_car_notes_def query_def select_active_def
          reply_def log_line_def split: option.splits)+
  have get2: "q = None \<and> res c = None \<longrightarrow>
        (\<exists>rows. res (get_car q c) =
                  Some \<lparr>status = 200, body = Json (Obj [(''cars'', Arr (map Row rows))])\<rparr>
              \<and> res (get_car_notes q c) =
                  Some \<lparr>status = 200, body = Json (Obj [(''car'', Arr (map Row rows))])\<rparr>)"
    by (simp add: get_car_def get_car_notes_def query_def select_active_def reply_def) blast
  have ct: "db (middleware_catch h a x) = db (middleware_catch_notes h a x)"
      "acquired (middleware_catch h a x) = acquired (middleware_catch_notes h a x)"
      "released (middleware_catch h a x) = released (middleware_catch_notes h a x)"
      "map_option status (res (middleware_catch h a x))
         = map_option status (res (middleware_catch_notes h a x))" for h a x
    by (simp_all add: middleware_catch_def middleware_catch_notes_def reply_def release_def
          log_line_def split: option.splits)
  have mw: "db (middleware f next c) = db (middleware_notes f next c)"
      "acquired (middleware f next c) = acquired (middleware_notes f next c)"
      "released (middleware f next c) = released (middleware_notes f next c)"
      "map_option status (res (middleware f next c))
         = map_option status (res (middleware_notes f next c))"
    by (simp_all add: middleware_def middleware_notes_def ct
          split: sum.splits prod.splits option.splits)
  have ok: "on_acquire f = None \<and> on_sql_mode f = None \<and> on_time_zone f = None \<longrightarrow>
        middleware f next c = middleware_notes f next c"
    by (simp add: middleware_def middleware_notes_def getConnection_def query_def
          set_session_def split: prod.splits)
  show ?thesis using put del get get2 mw ok by blast
qed

text \<open>C8 (amended) on the table of two rows.\<close>

theorem C8_witness:
  "res (get_car None garage) =
     Some \<lparr>status = 200,
           body = Json (Obj [(''cars'',
                    Arr [Row \<lparr>car_id = 2, car_make = Str ''Kia'', car_model = Str ''Rio'',
                              car_year = Num 2019, deleted_flag = 0,
                              date_created = Some 8\<rparr>])])\<rparr>
   \<and> res (get_car_notes None garage) =
     Some \<lparr>status = 200,
           body = Json (Obj [(''car'',
                    Arr [Row \<lparr>car_id = 2, car_make = Str ''Kia'', car_model = Str ''Rio'',
                              car_year = Num 2019, deleted_flag = 0,
                              date_created = Some 8\<rparr>])])\<rparr>
   \<and> middleware no_faults (dispatch by_value None GetCar) garage
       = middleware_notes no_faults (dispatch by_value None GetCar) garage"
proof -
  have a: "(None :: string option) = None \<and> res garage = None" by (simp add: garage_def)
  have b: "on_acquire no_faults = None \<and> on_sql_mode no_faults = None \<and>
           on_time_zone no_faults = None"
    by (simp add: no_faults_def)
  from C8_versions_agree_up_to_wording
         [of by_value None Map.empty garage "''1''" no_faults "dispatch by_value None GetCar"] a b
  have "\<exists>rows. res (get_car None garage) =
                  Some \<lparr>status = 200, body = Json (Obj [(''cars'', Arr (map Row rows))])\<rparr>
              \<and> res (get_car_notes None garage) =
                  Some \<lparr>status = 200, body = Json (Obj [(''car'', Arr (map Row rows))])\<rparr>"
    and m: "middleware no_faults (dispatch by_value None GetCar) garage
       = middleware_notes no_faults (dispatch by_value None GetCar) garage"
    by blast+
  moreover have "res (get_car None garage) =
     Some \<lparr>status = 200,
           body = Json (Obj [(''cars'',
                    Arr [Row \<lparr>car_id = 2, car_make = Str ''Kia'', car_model = Str ''Rio'',
                              car_year = Num 2019, deleted_flag = 0,
                              date_created = Some 8\<rparr>])])\<rparr>"
    by (simp add: get_car_def query_def select_active_def reply_def garage_def)
  ultimately show ?thesis by auto
qed

text \<open>
  C9. Two bodies that agree on make, model and year lead POST /car to the same state:
  the same table, the same answer, the same console, whatever else the bodies hold and
  whichever call fails; likewise for the handler of the notes. A create leaves the table
  as it is or appends one row, and that row has \<open>deleted_flag = 0\<close>.
\<close>

theorem C9_post_car_reads_three_fields:
  assumes "b1 ''make'' = b2 ''make''" "b1 ''model'' = b2 ''model''" "b1 ''year'' = b2 ''year''"
  shows "serve m f (PostCar b1) c = serve m f (PostCar b2) c
       \<and> post_car_notes q b1 c = post_car_notes q b2 c
       \<and> (cars (db (serve m f (PostCar b1) c)) = cars (db c) \<or>
          (\<exists>r. cars (db (serve m f (PostCar b1) c)) = cars (db c) @ [r] \<and> deleted_flag r = 0))
       \<and> (cars (db (post_car_notes q b1 c)) = cars (db c) \<or>
          (\<exists>r. cars (db (post_car_notes q b1 c)) = cars (db c) @ [r] \<and> deleted_flag r = 0))"
proof -
  have p: "post_car q' b1 = post_car q' b2" for q'
    by (rule ext) (simp add: post_car_def assms)
  have d: "dispatch m q' (PostCar b1) = dispatch m q' (PostCar b2)" for q'
    by (rule ext) (simp add: dispatch_def p)
  have s: "serve m f (PostCar b1) c = serve m f (PostCar b2) c"
    by (simp add: serve_def d)
  have n: "post_car_notes q b1 c = post_car_notes q b2 c"
    by (simp add: post_car_notes_def assms)
  have a: "cars (db (serve m f (PostCar b1) c)) = cars (db c) \<or>
          (\<exists>r. cars (db (serve m f (PostCar b1) c)) = cars (db c) @ [r] \<and> deleted_flag r = 0)"
  proof (cases rule: serve_cases [where rq = "PostCar b1" and m = m and f = f and c = c])
    case malformed
    then show ?thesis by simp
  next
    case (failed h msg c1)
    then show ?thesis by (simp add: middleware_catch_pool)
  next
    case (routed c1)
    then show ?thesis
      by (cases "on_query f")
         (simp_all add: dispatch_def post_car_def base_defs Let_def split: option.splits)
  qed
  have b: "cars (db (post_car_notes q b1 c)) = cars (db c) \<or>
          (\<exists>r. cars (db (post_car_notes q b1 c)) = cars (db c) @ [r] \<and> deleted_flag r = 0)"
    by (cases q) (simp_all add: post_car_notes_def base_defs Let_def split: option.splits)
  show ?thesis using s n a b by blast
qed

text \<open>C9 on a body that carries deleted_flag = 1.\<close>

theorem C9_witness:
  "serve by_value no_faults (PostCar (ford(''deleted_flag'' \<mapsto> Num 1))) garage
     = serve by_value no_faults (PostCar ford) garage
   \<and> map deleted_flag
       (cars (db (serve by_value no_faults (PostCar (ford(''deleted_flag'' \<mapsto> Num 1))) garage)))
     = [1, 0, 0]"
proof -
  let ?b = "ford(''deleted_flag'' \<mapsto> Num 1)"
  have "?b ''make'' = ford ''make''" "?b ''model'' = ford ''model''" "?b ''year'' = ford ''year''"
    by simp_all
  from C9_post_car_reads_three_fields [OF this, of by_value no_faults garage]
  have "serve by_value no_faults (PostCar ?b) garage = serve by_value no_faults (PostCar ford) garage"
    by blast
  then show ?thesis by (simp add: serve_post_car garage_def)
qed

text \<open>
  C10. A second successful DELETE /car/:id for the same id leaves the table as the
  first one left it, and is answered 200 with \<open>{success: true}\<close>; the handler of the
  notes is idempotent on the table as well.
\<close>

theorem C10_delete_car_is_idempotent:
  "db (serve m no_faults (DeleteCar i) (serve m no_faults (DeleteCar i) c))
     = db (serve m no_faults (DeleteCar i) c)
   \<and> res (serve m no_faults (DeleteCar i) (serve m no_faults (DeleteCar i) c))
     = Some \<lparr>status = 200, body = Json (Obj [(''success'', Val (Bool True))])\<rparr>
   \<and> db (delete_car_notes m None i (delete_car_notes m None i c))
     = db (delete_car_notes m None i c)"
proof -
  have "(\<lambda>r. if m (Str i) (car_id r) then r\<lparr>deleted_flag := 1\<rparr> else r) \<circ>
        (\<lambda>r. if m (Str i) (car_id r) then r\<lparr>deleted_flag := 1\<rparr> else r)
        = (\<lambda>r. if m (Str i) (car_id r) then r\<lparr>deleted_flag := 1\<rparr> else r)"
    by (rule ext) simp
  then show ?thesis
    by (simp add: serve_delete_car delete_car_notes_def query_def soft_delete_def reply_def
          split: option.splits)
qed

text \<open>C10 on the table of two rows, for the id of the active one.\<close>

theorem C10_witness:
  "map deleted_flag
     (cars (db (serve by_value no_faults (DeleteCar ''2'')
                  (serve by_value no_faults (DeleteCar ''2'') garage)))) = [1, 1]
   \<and> map deleted_flag (cars (db (serve by_value no_faults (DeleteCar ''2'') garage))) = [1, 1]"
  using C10_delete_car_is_idempotent [of by_value "''2''" garage]
  by (simp add: serve_delete_car garage_def by_value_def)

end
